theory Spec2Isabelle
  imports Main "HOL-Library.Multiset"
begin

section \<open>Exceptions\<close>

text \<open>
  Every exception the modelled code can raise is a value. \<open>Exception\<close> stands for
  whatever a collaborator outside the sources raises (the superclass constructor, the
  clean-up helper of the calculators package); \<open>OSError\<close> carries the errno name of the
  operating-system errors that have no Python subclass of their own.
\<close>

datatype error =
    ValueError string
  | AttributeError string
  | FileNotFoundError
  | FileExistsError
  | NotADirectoryError
  | OSError string
  | ShutilError string
  | Exception string

section \<open>Paths (pathlib on POSIX)\<close>

text \<open>
  A \<open>pathlib.Path\<close> is its root flag and its components. The constructor drops empty
  components and single dots and keeps double dots, as pathlib does. (POSIX lets a
  path that starts with exactly two slashes keep both; that root is read as one slash
  here.)
\<close>

record path =
  is_absolute :: bool
  parts :: "string list"

fun split_slash :: "string \<Rightarrow> string list" where
  "split_slash [] = [[]]"
| "split_slash (c # cs) =
     (if c = CHR ''/'' then [] # split_slash cs
      else (case split_slash cs of [] \<Rightarrow> [[c]] | w # ws \<Rightarrow> (c # w) # ws))"

definition Path :: "string \<Rightarrow> path" where
  "Path s =
     \<lparr>is_absolute = (case s of [] \<Rightarrow> False | c # _ \<Rightarrow> c = CHR ''/''),
      parts = filter (\<lambda>w. w \<noteq> [] \<and> w \<noteq> ''.'') (split_slash s)\<rparr>"

fun join_slash :: "string list \<Rightarrow> string" where
  "join_slash [] = []"
| "join_slash [w] = w"
| "join_slash (w # ws) = w @ ''/'' @ join_slash ws"

definition str :: "path \<Rightarrow> string" where
  "str p =
     (if is_absolute p then CHR ''/'' # join_slash (parts p)
      else if parts p = [] then ''.'' else join_slash (parts p))"

definition parent :: "path \<Rightarrow> path" where
  "parent p = p\<lparr>parts := butlast (parts p)\<rparr>"

definition name :: "path \<Rightarrow> string" where
  "name p = (if parts p = [] then [] else last (parts p))"

text \<open>The operator \<open>/\<close> of pathlib: an absolute right operand replaces the left one.\<close>

definition joinpath :: "path \<Rightarrow> path \<Rightarrow> path" where
  "joinpath p q = (if is_absolute q then q else p\<lparr>parts := parts p @ parts q\<rparr>)"

text \<open>The path of a directory entry, as \<open>iterdir\<close> and \<open>glob\<close> build it.\<close>

definition child :: "path \<Rightarrow> string \<Rightarrow> path" where
  "child p n = p\<lparr>parts := parts p @ [n]\<rparr>"

text \<open>
  \<open>s.replace(old, new, 1)\<close> and \<open>s.replace(old, new)\<close> of Python strings, for a
  one-character \<open>old\<close>.
\<close>

fun replace1 :: "char \<Rightarrow> string \<Rightarrow> string \<Rightarrow> string" where
  "replace1 old new [] = []"
| "replace1 old new (c # cs) = (if c = old then new @ cs else c # replace1 old new cs)"

definition replace :: "char \<Rightarrow> string \<Rightarrow> string \<Rightarrow> string" where
  "replace old new s = concat (map (\<lambda>c. if c = old then new else [c]) s)"

section \<open>The calculator object\<close>

text \<open>
  The values \<open>keep_files\<close> takes: a bool, \<open>None\<close>, a string (\<open>"default"\<close>, \<open>"*"\<close>) or a
  list of globs.
\<close>

datatype keep_files = KeepBool bool | KeepNone | KeepStr string | KeepList "string list"

text \<open>
  An instance of \<open>WFLFileIOCalculator\<close>: each attribute is \<open>None\<close> until it is assigned,
  and reading an unassigned attribute raises \<open>AttributeError\<close>. \<open>base\<close> is the part of
  the object the superclass constructor builds; the superclass is taken to define no
  attribute of the names below. \<open>_wfl_scratchdir\<close> can be assigned Python's \<open>None\<close>,
  hence the second option.
\<close>

record 'b obj =
  base :: "'b option"
  wfl_keep_files :: "keep_files option"
  wfl_rundir_prefix :: "path option"
  wfl_workdir :: "path option"
  wfl_scratchdir :: "path option option"
  cur_rundir :: "path option"
  directory :: "path option"

definition new_obj :: "'b obj" where
  "new_obj =
     \<lparr>base = None, wfl_keep_files = None, wfl_rundir_prefix = None, wfl_workdir = None,
      wfl_scratchdir = None, cur_rundir = None, directory = None\<rparr>"

definition py_str :: "string option \<Rightarrow> string" where
  "py_str v = (case v of None \<Rightarrow> ''None'' | Some s \<Rightarrow> s)"

text \<open>
  \<open>__init__\<close>, on a fresh object. \<open>super_init\<close> is the superclass constructor the
  mixin forwards the remaining keyword arguments to; it returns the superclass part of
  the object or raises. The result is the exception raised, if any, and the object as
  the constructor left it.
\<close>

definition init ::
  "((string \<times> 'v) list \<Rightarrow> error + 'b) \<Rightarrow> keep_files \<Rightarrow> string \<Rightarrow> string option \<Rightarrow>
   string option \<Rightarrow> (string \<times> 'v) list \<Rightarrow> error option \<times> 'b obj" where
  "init super_init keep rundir_prefix workdir scratchdir kwargs =
     (let self = new_obj in
      if ''directory'' \<in> set (map fst kwargs)
      then (Some (ValueError ''Cannot pass directory argument''), self)
      else
        (case super_init kwargs of
           Inl e \<Rightarrow> (Some e, self)
         | Inr b \<Rightarrow>
             (let self = self\<lparr>base := Some b\<rparr>;
                  self = self\<lparr>wfl_keep_files := Some keep\<rparr>;
                  self = self\<lparr>wfl_rundir_prefix := Some (Path rundir_prefix)\<rparr>;
                  raised =
                    (if is_absolute (Path rundir_prefix)
                     then (case wfl_workdir self of
                             None \<Rightarrow> Some (AttributeError ''_wfl_workdir'')
                           | Some _ \<Rightarrow>
                               Some (ValueError
                                 (''Can not specify workdir '' @ py_str workdir @
                                  '' if rundir_prefix '' @ rundir_prefix @
                                  '' is an absolute path'')))
                     else None)
              in (case raised of
                    Some e \<Rightarrow> (Some e, self)
                  | None \<Rightarrow>
                      (let self = self\<lparr>wfl_workdir :=
                                    Some (case workdir of None \<Rightarrow> Path ''.'' | Some w \<Rightarrow> Path w)\<rparr>;
                           self = self\<lparr>wfl_scratchdir :=
                                    Some (case scratchdir of None \<Rightarrow> None | Some s \<Rightarrow> Some (Path s))\<rparr>
                       in (None, self))))))"

section \<open>The file system\<close>

text \<open>
  What the methods do to the disk is a function of an explicit file system: the nodes
  by their location (the components from the root, none of them a dot or a double
  dot) and the current directory. The root is always a directory. There are no
  symbolic links, no permissions and one device.
\<close>

type_synonym location = "string list"

datatype node = File string | Dir

record filesystem =
  nodes :: "(location \<times> node) list"
  cwd :: location

definition stat :: "filesystem \<Rightarrow> location \<Rightarrow> node option" where
  "stat fs k = (if k = [] then Some Dir else map_of (nodes fs) k)"

text \<open>
  Path resolution as the kernel does it: every component is looked up in a location
  that must be an existing directory; a double dot steps to the parent. The location
  reached by the last component need not exist.
\<close>

fun walk :: "filesystem \<Rightarrow> location \<Rightarrow> string list \<Rightarrow> error + location" where
  "walk fs k [] = Inr k"
| "walk fs k (c # cs) =
     (case stat fs k of
        None \<Rightarrow> Inl FileNotFoundError
      | Some (File _) \<Rightarrow> Inl NotADirectoryError
      | Some Dir \<Rightarrow> walk fs (if c = ''..'' then butlast k else k @ [c]) cs)"

definition locate :: "filesystem \<Rightarrow> path \<Rightarrow> error + location" where
  "locate fs p = walk fs (if is_absolute p then [] else cwd fs) (parts p)"

definition node_at :: "filesystem \<Rightarrow> path \<Rightarrow> node option" where
  "node_at fs p = (case locate fs p of Inl _ \<Rightarrow> None | Inr k \<Rightarrow> stat fs k)"

definition is_dir :: "filesystem \<Rightarrow> path \<Rightarrow> bool" where
  "is_dir fs p = (node_at fs p = Some Dir)"

definition os_mkdir :: "filesystem \<Rightarrow> path \<Rightarrow> error + filesystem" where
  "os_mkdir fs p =
     (case locate fs p of
        Inl e \<Rightarrow> Inl e
      | Inr k \<Rightarrow>
          (case stat fs k of
             Some _ \<Rightarrow> Inl FileExistsError
           | None \<Rightarrow> Inr (fs\<lparr>nodes := (k, Dir) # nodes fs\<rparr>)))"

text \<open>
  \<open>Path.mkdir(parents=False, exist_ok=True)\<close> and \<open>Path.mkdir(parents=True,
  exist_ok=True)\<close>, with pathlib's own recursion: try the directory, on
  \<open>FileNotFoundError\<close> make the parent and try again, and let any other error pass
  when the path is a directory already. The file system is returned on failure too:
  parents made before the failure stay.
\<close>

definition mkdir_exist_ok :: "filesystem \<Rightarrow> path \<Rightarrow> error option \<times> filesystem" where
  "mkdir_exist_ok fs p =
     (case os_mkdir fs p of
        Inr fs' \<Rightarrow> (None, fs')
      | Inl e \<Rightarrow>
          if e = FileNotFoundError then (Some e, fs)
          else if is_dir fs p then (None, fs) else (Some e, fs))"

function mkdir_parents :: "filesystem \<Rightarrow> path \<Rightarrow> error option \<times> filesystem" where
  "mkdir_parents fs p =
     (case os_mkdir fs p of
        Inr fs' \<Rightarrow> (None, fs')
      | Inl e \<Rightarrow>
          if e = FileNotFoundError then
            (if parent p = p then (Some e, fs)
             else (case mkdir_parents fs (parent p) of
                     (Some e', fs') \<Rightarrow> (Some e', fs')
                   | (None, fs') \<Rightarrow> mkdir_exist_ok fs' p))
          else if is_dir fs p then (None, fs) else (Some e, fs))"
  by pat_completeness auto
termination
proof (relation "measure (\<lambda>(fs, p). length (parts p))")
  show "wf (measure (\<lambda>(fs, p). length (parts p)))" by simp
next
  fix fs :: filesystem and p :: path and e :: error
  assume "parent p \<noteq> p"
  then have "parts p \<noteq> []" by (auto simp: parent_def)
  then show "((fs, parent p), (fs, p)) \<in> measure (\<lambda>(fs, p). length (parts p))"
    by (simp add: parent_def)
qed

declare mkdir_parents.simps [simp del]

text \<open>
  \<open>tempfile.mkdtemp(dir=d, prefix=pre)\<close>. The random names the library draws are
  the list \<open>ns\<close> (at most \<open>TMP_MAX\<close> of them): the first one whose directory can be made
  is taken, a name that exists is skipped, any other error is raised, and a list that
  runs out raises \<open>FileExistsError\<close>. The path returned is \<open>d\<close> joined with the name
  (Python before 3.12; later versions make it absolute).
\<close>

fun mkdtemp :: "filesystem \<Rightarrow> path \<Rightarrow> string \<Rightarrow> string list \<Rightarrow> (error + path) \<times> filesystem" where
  "mkdtemp fs d pre [] = (Inl FileExistsError, fs)"
| "mkdtemp fs d pre (n # ns) =
     (let file = joinpath d (Path (pre @ n)) in
      case os_mkdir fs file of
        Inr fs' \<Rightarrow> (Inr file, fs')
      | Inl e \<Rightarrow> if e = FileExistsError then mkdtemp fs d pre ns else (Inl e, fs))"

text \<open>
  \<open>Path.resolve()\<close>: the absolute path, double dots taken out. Without symbolic links
  this is a computation on the components.
\<close>

fun normalise :: "location \<Rightarrow> string list \<Rightarrow> location" where
  "normalise k [] = k"
| "normalise k (c # cs) = normalise (if c = ''..'' then butlast k else k @ [c]) cs"

definition resolve :: "filesystem \<Rightarrow> path \<Rightarrow> path" where
  "resolve fs p =
     \<lparr>is_absolute = True,
      parts = normalise (if is_absolute p then [] else cwd fs) (parts p)\<rparr>"

definition children :: "filesystem \<Rightarrow> location \<Rightarrow> string list" where
  "children fs k =
     map (\<lambda>(l, n). last l) (filter (\<lambda>(l, n). l \<noteq> [] \<and> butlast l = k) (nodes fs))"

definition iterdir :: "filesystem \<Rightarrow> path \<Rightarrow> error + path list" where
  "iterdir fs p =
     (case locate fs p of
        Inl e \<Rightarrow> Inl e
      | Inr k \<Rightarrow>
          (case stat fs k of
             None \<Rightarrow> Inl FileNotFoundError
           | Some (File _) \<Rightarrow> Inl NotADirectoryError
           | Some Dir \<Rightarrow> Inr (map (child p) (children fs k))))"

text \<open>
  \<open>Path.glob("*")\<close>: every entry of the directory, names with a leading dot included,
  listed before the first one is handed out; nothing when the path is no directory.
\<close>

definition glob_star :: "filesystem \<Rightarrow> path \<Rightarrow> path list" where
  "glob_star fs p = (case iterdir fs p of Inl _ \<Rightarrow> [] | Inr ps \<Rightarrow> ps)"

definition rmdir :: "filesystem \<Rightarrow> path \<Rightarrow> error + filesystem" where
  "rmdir fs p =
     (case locate fs p of
        Inl e \<Rightarrow> Inl e
      | Inr k \<Rightarrow>
          (case stat fs k of
             None \<Rightarrow> Inl FileNotFoundError
           | Some (File _) \<Rightarrow> Inl NotADirectoryError
           | Some Dir \<Rightarrow>
               if children fs k \<noteq> [] then Inl (OSError ''ENOTEMPTY'')
               else if k = [] \<or> k = cwd fs then Inl (OSError ''EBUSY'')
               else Inr (fs\<lparr>nodes := filter (\<lambda>(l, n). l \<noteq> k) (nodes fs)\<rparr>)))"

text \<open>
  \<open>os.rename\<close>: the node at the source, with everything below it, gets the location
  of the destination; a file or an empty directory that is there is replaced.
\<close>

definition relocate ::
  "location \<Rightarrow> location \<Rightarrow> (location \<times> node) list \<Rightarrow> (location \<times> node) list" where
  "relocate ks kd ns =
     map (\<lambda>(l, n). if take (length ks) l = ks then (kd @ drop (length ks) l, n) else (l, n))
       (filter (\<lambda>(l, n). l \<noteq> kd) ns)"

definition os_rename :: "filesystem \<Rightarrow> path \<Rightarrow> path \<Rightarrow> error + filesystem" where
  "os_rename fs src dst =
     (case locate fs src of
        Inl e \<Rightarrow> Inl e
      | Inr ks \<Rightarrow>
     (case stat fs ks of
        None \<Rightarrow> Inl FileNotFoundError
      | Some s \<Rightarrow>
     (case locate fs dst of
        Inl e \<Rightarrow> Inl e
      | Inr kd \<Rightarrow>
          if ks = kd then Inr fs
          else if take (length ks) kd = ks then Inl (OSError ''EINVAL'')
          else
            (case stat fs kd of
               None \<Rightarrow> Inr (fs\<lparr>nodes := relocate ks kd (nodes fs)\<rparr>)
             | Some (File _) \<Rightarrow>
                 if s = Dir then Inl NotADirectoryError
                 else Inr (fs\<lparr>nodes := relocate ks kd (nodes fs)\<rparr>)
             | Some Dir \<Rightarrow>
                 if s \<noteq> Dir then Inl (OSError ''EISDIR'')
                 else if children fs kd \<noteq> [] then Inl (OSError ''ENOTEMPTY'')
                 else Inr (fs\<lparr>nodes := relocate ks kd (nodes fs)\<rparr>)))))"

definition samefile :: "filesystem \<Rightarrow> path \<Rightarrow> path \<Rightarrow> bool" where
  "samefile fs a b =
     (node_at fs a \<noteq> None \<and> node_at fs b \<noteq> None \<and> locate fs a = locate fs b)"

text \<open>
  \<open>shutil.move(src, dst)\<close>: into \<open>dst\<close> under the source's own name when \<open>dst\<close> is a
  directory, refusing a name that is taken; onto \<open>dst\<close> otherwise. The copy the library
  falls back to when the rename fails is what a rename does on one device; a directory
  moved into itself is the library's own error, and any other failure of the rename
  is raised as it is.
\<close>

definition rename_or_copy :: "filesystem \<Rightarrow> path \<Rightarrow> path \<Rightarrow> path \<Rightarrow> error + filesystem" where
  "rename_or_copy fs src real_dst dst =
     (case os_rename fs src real_dst of
        Inr fs' \<Rightarrow> Inr fs'
      | Inl e \<Rightarrow>
          if e = OSError ''EINVAL'' \<and> is_dir fs src
          then Inl (ShutilError
                 (''Cannot move a directory '' @ str src @ '' into itself '' @ str dst))
          else Inl e)"

definition shutil_move :: "filesystem \<Rightarrow> path \<Rightarrow> path \<Rightarrow> error + filesystem" where
  "shutil_move fs src dst =
     (if is_dir fs dst then
        (if samefile fs src dst then os_rename fs src dst
         else
           (let real_dst = child dst (name src) in
            if node_at fs real_dst \<noteq> None
            then Inl (ShutilError (''Destination path '' @ str real_dst @ '' already exists''))
            else rename_or_copy fs src real_dst dst))
      else rename_or_copy fs src dst dst)"


section \<open>Setting up and cleaning the run directory\<close>

text \<open>
  \<open>setup_rundir\<close>. \<open>names\<close> are the random names \<open>mkdtemp\<close> draws. The method has no
  \<open>return\<close> statement: the value of a call is Python's \<open>None\<close>, the first component of
  a normal result. The object and the file system are returned as the call left them,
  also when it raises.
\<close>

definition setup_rundir ::
  "string list \<Rightarrow> 'b obj \<Rightarrow> filesystem \<Rightarrow> (error + path option) \<times> 'b obj \<times> filesystem" where
  "setup_rundir names self fs =
     (case wfl_workdir self of
        None \<Rightarrow> (Inl (AttributeError ''_wfl_workdir''), self, fs)
      | Some workdir \<Rightarrow>
     (case wfl_rundir_prefix self of
        None \<Rightarrow> (Inl (AttributeError ''_wfl_rundir_prefix''), self, fs)
      | Some prefix \<Rightarrow>
     (let rundir_path = joinpath workdir (parent prefix) in
      case mkdir_parents fs rundir_path of
        (Some e, fs) \<Rightarrow> (Inl e, self, fs)
      | (None, fs) \<Rightarrow>
     (case mkdtemp fs rundir_path (name prefix) names of
        (Inl e, fs) \<Rightarrow> (Inl e, self, fs)
      | (Inr d, fs) \<Rightarrow>
     (let self = self\<lparr>cur_rundir := Some d\<rparr> in
      case wfl_scratchdir self of
        None \<Rightarrow> (Inl (AttributeError ''_wfl_scratchdir''), self, fs)
      | Some None \<Rightarrow> (Inr None, self\<lparr>directory := Some d\<rparr>, fs)
      | Some (Some scratchdir) \<Rightarrow>
          (let dir_name = replace CHR ''/'' ''_'' (replace1 CHR ''/'' [] (str (resolve fs d)));
               dir = joinpath scratchdir (Path dir_name)
           in case mkdir_parents fs dir of
                (Some e, fs) \<Rightarrow> (Inl e, self, fs)
              | (None, fs) \<Rightarrow> (Inr None, self\<lparr>directory := Some dir\<rparr>, fs)))))))"

text \<open>The loop of \<open>clean_rundir\<close>: each entry is moved to \<open>self._cur_rundir\<close>.\<close>

fun move_all :: "filesystem \<Rightarrow> path list \<Rightarrow> path option \<Rightarrow> error option \<times> filesystem" where
  "move_all fs [] dst = (None, fs)"
| "move_all fs (f # rest) dst =
     (case dst of
        None \<Rightarrow> (Some (AttributeError ''_cur_rundir''), fs)
      | Some d \<Rightarrow>
          (case shutil_move fs f d of
             Inl e \<Rightarrow> (Some e, fs)
           | Inr fs' \<Rightarrow> move_all fs' rest dst))"

text \<open>
  \<open>clean_rundir\<close>. The helper \<open>utils.clean_rundir\<close> of the calculators package is not
  among the sources; it is the parameter \<open>utils_clean_rundir\<close>, which may change the
  file system and may raise. The result is the exception raised, if any, the warnings
  issued, the object and the file system.
\<close>

definition clean_rundir ::
  "(path \<Rightarrow> keep_files \<Rightarrow> string list \<Rightarrow> bool \<Rightarrow> filesystem \<Rightarrow> error option \<times> filesystem) \<Rightarrow>
   string list \<Rightarrow> bool \<Rightarrow> 'b obj \<Rightarrow> filesystem \<Rightarrow>
   error option \<times> string list \<times> 'b obj \<times> filesystem" where
  "clean_rundir utils_clean_rundir default_keep_files calculation_succeeded self fs =
     (case directory self of
        None \<Rightarrow> (Some (AttributeError ''directory''), [], self, fs)
      | Some dir \<Rightarrow>
     (case wfl_keep_files self of
        None \<Rightarrow> (Some (AttributeError ''_wfl_keep_files''), [], self, fs)
      | Some keep \<Rightarrow>
     (case utils_clean_rundir dir keep default_keep_files calculation_succeeded fs of
        (Some e, fs) \<Rightarrow> (Some e, [], self, fs)
      | (None, fs) \<Rightarrow>
     (case wfl_scratchdir self of
        None \<Rightarrow> (Some (AttributeError ''_wfl_scratchdir''), [], self, fs)
      | Some None \<Rightarrow> (None, [], self, fs)
      | Some (Some _) \<Rightarrow>
     (case move_all fs (glob_star fs dir) (cur_rundir self) of
        (Some e, fs) \<Rightarrow> (Some e, [], self, fs)
      | (None, fs) \<Rightarrow>
     (case iterdir fs dir of
        Inl e \<Rightarrow> (Some e, [], self, fs)
      | Inr entries \<Rightarrow>
          if entries = []
          then (None, [''scratchdir '' @ str dir @ '' is not empty, not deleting.''], self, fs)
          else
            (case rmdir fs dir of
               Inl e \<Rightarrow> (Some e, [], self, fs)
             | Inr fs \<Rightarrow> (None, [], self\<lparr>directory := Some (Path ''.'')\<rparr>, fs))))))))"

section \<open>Command-line options\<close>

text \<open>
  A \<open>click.option\<close> of integer type: its flag, its default, whether the default is
  shown, and its description. The decorator puts the option in front of the options the
  command already has.
\<close>

record click_option =
  flag :: string
  opt_default :: "int option"
  show_default :: bool
  description :: string

definition num_inputs_per_python_subprocess_option :: click_option where
  "num_inputs_per_python_subprocess_option =
     \<lparr>flag = ''--num-inputs-per-python-subprocess'',
      opt_default = Some 10,
      show_default = True,
      description = ''Number of configs to be evaluated per each calculator initialization''\<rparr>"

definition num_inputs_per_python_subprocess :: "click_option list \<Rightarrow> click_option list" where
  "num_inputs_per_python_subprocess f = num_inputs_per_python_subprocess_option # f"

text \<open>
  What the command receives for an option: the integer given on the command line, the
  default when the flag is absent.
\<close>

definition option_value :: "click_option \<Rightarrow> int option \<Rightarrow> int option" where
  "option_value opt given = (case given of None \<Rightarrow> opt_default opt | Some v \<Rightarrow> Some v)"

text \<open>
  Modelled from the spec: the invariant of AutoparaInfo (the autoparallelize package is
  not among the sources), "worker count and per-worker chunk size are both \<ge>1".
\<close>

record autopara_info =
  num_python_subprocesses :: int
  num_inputs_per_subprocess :: int

definition autopara_invariant :: "autopara_info \<Rightarrow> bool" where
  "autopara_invariant a = (1 \<le> num_python_subprocesses a \<and> 1 \<le> num_inputs_per_subprocess a)"

section \<open>Chunking and dispatch\<close>

text \<open>
  Modelled from the spec: the Chunk and the Chunker (the autoparallelize package is not
  among the sources). "Chunk: an ordered sequence of Structures plus the index of the
  first element in the global sequence"; the Chunker, "given an input sequence and a
  target chunk size N, produces a lazy sequence of Chunks, each containing up to N
  consecutive items, tagged with the starting global index", where the "final chunk may
  be shorter than N; zero-length input yields zero chunks". The spec gives N \<ge> 1; for
  N = 0 the model yields nothing. \<open>i\<close> is the global index of the first item of \<open>xs\<close>.
\<close>

record 'a chunk =
  start :: nat
  items :: "'a list"

function chunker :: "nat \<Rightarrow> nat \<Rightarrow> 'a list \<Rightarrow> 'a chunk list" where
  "chunker n i xs =
     (if n = 0 \<or> xs = [] then []
      else \<lparr>start = i, items = take n xs\<rparr> # chunker n (i + n) (drop n xs))"
  by pat_completeness auto
termination
  by (relation "measure (\<lambda>(n, i, xs). length xs)") auto

declare chunker.simps [simp del]

text \<open>
  Modelled from the spec: the Parallel Dispatcher and the orchestrator's choice of
  path. A worker evaluates every item of a chunk and "returns the ordered list of
  ResultRecords for that chunk tagged with its starting index" (an item's failure is a
  ResultRecord too, so \<open>evaluate\<close> is total). With a worker count of at most one "all
  chunks" run "in-process, sequentially". Otherwise the chunks complete in some order,
  the list \<open>completed\<close> (each chunk's result once, in any order), and "the dispatcher
  reorders completed chunk-results by starting index before handing them to the
  Resumable Output Sink".
\<close>

definition run_chunk :: "('a \<Rightarrow> 'r) \<Rightarrow> 'a chunk \<Rightarrow> 'r chunk" where
  "run_chunk evaluate c = \<lparr>start = start c, items = map evaluate (items c)\<rparr>"

definition serial_run :: "('a \<Rightarrow> 'r) \<Rightarrow> nat \<Rightarrow> 'a list \<Rightarrow> 'r list" where
  "serial_run evaluate n xs =
     concat (map (\<lambda>c. items (run_chunk evaluate c)) (chunker n 0 xs))"

definition completion_order :: "('a \<Rightarrow> 'r) \<Rightarrow> nat \<Rightarrow> 'a list \<Rightarrow> 'r chunk list \<Rightarrow> bool" where
  "completion_order evaluate n xs completed =
     (mset completed = mset (map (run_chunk evaluate) (chunker n 0 xs)))"

definition reorder :: "'r chunk list \<Rightarrow> 'r chunk list" where
  "reorder completed = sort_key start completed"

definition parallel_run :: "'r chunk list \<Rightarrow> 'r list" where
  "parallel_run completed = concat (map items (reorder completed))"

definition run :: "nat \<Rightarrow> nat \<Rightarrow> ('a \<Rightarrow> 'r) \<Rightarrow> 'a list \<Rightarrow> 'r chunk list \<Rightarrow> 'r list" where
  "run workers n evaluate xs completed =
     (if workers \<le> 1 then serial_run evaluate n xs else parallel_run completed)"

section \<open>Example data\<close>

text \<open>
  A calculator as \<open>WFLFileIOCalculator(keep_files=True, rundir_prefix="runs/run_",
  scratchdir="/scratch")\<close> constructs it, in a process whose current directory is
  \<open>/home\<close>; the same calculator after \<open>setup_rundir\<close> drew the name \<open>k3x9q_ab\<close>; and
  the file systems before the set-up, after it, and after a calculation that wrote
  into the scratch directory.
\<close>

definition example_calc :: "unit obj" where
  "example_calc =
     \<lparr>base = Some (), wfl_keep_files = Some (KeepBool True),
      wfl_rundir_prefix = Some (Path ''runs/run_''), wfl_workdir = Some (Path ''.''),
      wfl_scratchdir = Some (Some (Path ''/scratch'')), cur_rundir = None, directory = None\<rparr>"

definition example_calc_run :: "unit obj" where
  "example_calc_run = example_calc
     \<lparr>cur_rundir := Some (Path ''runs/run_k3x9q_ab''),
      directory := Some (Path ''/scratch/home_runs_run_k3x9q_ab'')\<rparr>"

definition example_fs :: filesystem where
  "example_fs = \<lparr>nodes = [([''home''], Dir), ([''scratch''], Dir)], cwd = [''home'']\<rparr>"

definition example_fs_setup :: filesystem where
  "example_fs_setup =
     \<lparr>nodes = [([''scratch'', ''home_runs_run_k3x9q_ab''], Dir),
               ([''home'', ''runs'', ''run_k3x9q_ab''], Dir),
               ([''home'', ''runs''], Dir), ([''home''], Dir), ([''scratch''], Dir)],
      cwd = [''home'']\<rparr>"

definition example_fs_one_file :: filesystem where
  "example_fs_one_file =
     example_fs_setup\<lparr>nodes :=
       ([''scratch'', ''home_runs_run_k3x9q_ab'', ''out.log''], File ''energy'')
         # nodes example_fs_setup\<rparr>"

definition example_fs_two_entries :: filesystem where
  "example_fs_two_entries =
     example_fs_setup\<lparr>nodes :=
       ([''scratch'', ''home_runs_run_k3x9q_ab'', ''out.log''], File ''energy'')
         # ([''scratch'', ''home_runs_run_k3x9q_ab'', ''tmp'', ''wfn.dat''], File ''psi'')
         # ([''scratch'', ''home_runs_run_k3x9q_ab'', ''tmp''], Dir)
         # nodes example_fs_setup\<rparr>"

text \<open>A file system in which a file stands where the run directories are to go.\<close>

definition example_fs_blocked :: filesystem where
  "example_fs_blocked =
     \<lparr>nodes = [([''home'', ''runs''], File ''notes''), ([''home''], Dir), ([''scratch''], Dir)],
      cwd = [''home'']\<rparr>"

text \<open>
  The clean-up helper where it has nothing to delete: with \<open>keep_files=True\<close>
  everything is kept.
\<close>

definition keep_all ::
  "path \<Rightarrow> keep_files \<Rightarrow> string list \<Rightarrow> bool \<Rightarrow> filesystem \<Rightarrow> error option \<times> filesystem" where
  "keep_all dir keep default_keep_files calculation_succeeded fs = (None, fs)"

section \<open>Making directories only adds nodes\<close>

lemma is_absolute_Path: "is_absolute (Path s) = (\<exists>t. s = CHR ''/'' # t)"
  by (cases s) (simp_all add: Path_def)














lemma iterdir_Inr:
  assumes "iterdir fs d = Inr es"
  shows "is_dir fs d" and "es \<noteq> [] \<Longrightarrow> rmdir fs d = Inl (OSError ''ENOTEMPTY'')"
proof -
  from assms obtain k where k: "locate fs d = Inr k" "stat fs k = Some Dir"
    and es: "es = map (child d) (children fs k)"
    by (auto simp: iterdir_def split: sum.splits option.splits node.splits)
  from k show "is_dir fs d"
    by (simp add: is_dir_def node_at_def)
  assume "es \<noteq> []"
  with es have "children fs k \<noteq> []" by auto
  with k show "rmdir fs d = Inl (OSError ''ENOTEMPTY'')"
    by (simp add: rmdir_def)
qed

lemmas path_defs = Path_def joinpath_def parent_def name_def str_def child_def resolve_def
  replace_def

lemmas fs_defs = locate_def stat_def node_at_def is_dir_def os_mkdir_def mkdir_exist_ok_def
  children_def iterdir_def glob_star_def rmdir_def relocate_def os_rename_def samefile_def
  rename_or_copy_def shutil_move_def

lemmas example_defs = example_calc_def example_calc_run_def example_fs_def
  example_fs_setup_def example_fs_one_file_def example_fs_two_entries_def
  example_fs_blocked_def keep_all_def

section \<open>The constructor\<close>

text \<open>
  C9. A call of the constructor whose keyword arguments hold the key \<open>directory\<close> raises
  \<open>ValueError\<close> and leaves the object as it was created: the superclass part is not
  built, whatever the superclass constructor would have done, and no attribute is
  assigned.
\<close>

theorem init_directory_kwarg:
  assumes "''directory'' \<in> set (map fst kwargs)"
  shows "init super_init keep rundir_prefix workdir scratchdir kwargs =
           (Some (ValueError ''Cannot pass directory argument''),
            \<lparr>base = None, wfl_keep_files = None, wfl_rundir_prefix = None,
             wfl_workdir = None, wfl_scratchdir = None, cur_rundir = None,
             directory = None\<rparr>)"
  using assms by (simp add: init_def new_obj_def)

theorem init_directory_kwarg_witness:
  "init (\<lambda>kw. Inr (length kw)) (KeepBool True) ''run_'' None None [(''directory'', ''x'')] =
     (Some (ValueError ''Cannot pass directory argument''),
      \<lparr>base = None, wfl_keep_files = None, wfl_rundir_prefix = None,
       wfl_workdir = None, wfl_scratchdir = None, cur_rundir = None,
       directory = None\<rparr>)"
  using init_directory_kwarg [of "[(''directory'', ''x'')]" "\<lambda>kw. Inr (length kw)"
      "KeepBool True" "''run_''" None None]
  by simp

text \<open>
  C10. With an absolute run-directory prefix and no \<open>directory\<close> keyword argument the
  constructor raises, with or without a working directory: when the superclass
  constructor returns, the exception is the \<open>AttributeError\<close> of reading
  \<open>_wfl_workdir\<close> before its assignment; otherwise it is the superclass constructor's
  own. The working directory is never assigned, so no instance with an absolute prefix
  comes out of the constructor.
\<close>

theorem init_absolute_prefix:
  assumes "is_absolute (Path rundir_prefix)"
    and "''directory'' \<notin> set (map fst kwargs)"
  shows "(\<exists>e. fst (init super_init keep rundir_prefix workdir scratchdir kwargs) = Some e)
       \<and> (\<forall>b. super_init kwargs = Inr b \<longrightarrow>
            fst (init super_init keep rundir_prefix workdir scratchdir kwargs) =
              Some (AttributeError ''_wfl_workdir''))
       \<and> wfl_workdir (snd (init super_init keep rundir_prefix workdir scratchdir kwargs)) = None"
  using assms
  by (auto simp: init_def new_obj_def Let_def split: sum.splits)

theorem init_absolute_prefix_witness:
  "is_absolute (Path ''/tmp/run_'')
   \<and> fst (init (\<lambda>kw. Inr (length kw)) (KeepBool True) ''/tmp/run_'' (Some ''work'') None
          ([] :: (string \<times> string) list)) = Some (AttributeError ''_wfl_workdir'')
   \<and> fst (init (\<lambda>kw. Inr (length kw)) (KeepBool True) ''/tmp/run_'' None None
          ([] :: (string \<times> string) list)) = Some (AttributeError ''_wfl_workdir'')"
proof -
  have a: "is_absolute (Path ''/tmp/run_'')"
    by (simp add: is_absolute_Path)
  have d: "''directory'' \<notin> set (map fst ([] :: (string \<times> string) list))"
    by simp
  from init_absolute_prefix [OF a d, of "\<lambda>kw. Inr (length kw)" "KeepBool True" "Some ''work''" None]
    init_absolute_prefix [OF a d, of "\<lambda>kw. Inr (length kw)" "KeepBool True" None None] a
  show ?thesis by simp
qed

section \<open>Setting up the run directory\<close>




text \<open>
  C7. When the directory \<open>workdir / prefix.parent\<close> cannot be made, \<open>setup_rundir\<close>
  raises the error of that \<open>mkdir\<close> and does nothing else: no run directory is drawn,
  no scratch mirror is made, and the object is unchanged, so that neither
  \<open>_cur_rundir\<close> nor \<open>directory\<close> is assigned. The file system is the one the
  failed \<open>mkdir\<close> left.
\<close>

theorem setup_rundir_root_failure:
  assumes "wfl_workdir self = Some workdir"
    and "wfl_rundir_prefix self = Some prefix"
    and "mkdir_parents fs (joinpath workdir (parent prefix)) = (Some e, fs1)"
  shows "setup_rundir names self fs = (Inl e, self, fs1)"
  using assms by (simp add: setup_rundir_def Let_def)

theorem setup_rundir_root_failure_witness:
  "wfl_workdir example_calc = Some (Path ''.'')
   \<and> wfl_rundir_prefix example_calc = Some (Path ''runs/run_'')
   \<and> mkdir_parents example_fs_blocked (joinpath (Path ''.'') (parent (Path ''runs/run_''))) =
       (Some FileExistsError, example_fs_blocked)
   \<and> setup_rundir [''k3x9q_ab''] example_calc example_fs_blocked =
       (Inl FileExistsError, example_calc, example_fs_blocked)
   \<and> cur_rundir example_calc = None \<and> directory example_calc = None"
proof -
  have w: "wfl_workdir example_calc = Some (Path ''.'')"
    and p: "wfl_rundir_prefix example_calc = Some (Path ''runs/run_'')"
    by (simp_all add: example_calc_def)
  have m: "mkdir_parents example_fs_blocked (joinpath (Path ''.'') (parent (Path ''runs/run_''))) =
      (Some FileExistsError, example_fs_blocked)"
    by (simp add: example_fs_blocked_def mkdir_parents.simps path_defs fs_defs)
  from setup_rundir_root_failure [OF w p m, of "[''k3x9q_ab'']"] w p m show ?thesis
    by (simp add: example_calc_def)
qed

section \<open>Cleaning the run directory\<close>

text \<open>
  C1. The code does not do what the claim says. With a scratch directory configured,
  \<open>clean_rundir\<close> has two outcomes. It completes only when the scratch working
  directory is empty after the move: then the directory is still there, the warning
  that it "is not empty" has been issued, and \<open>self.directory\<close> still names it. In
  every other case an exception is raised and no warning is issued; this includes the
  directory that is not empty after the move, where \<open>rmdir\<close> raises. The test
  \<open>== []\<close> of the code is the opposite of what its warning says.
\<close>

theorem clean_rundir_scratch_outcome:
  assumes "wfl_scratchdir self = Some (Some scratchdir)"
    and "directory self = Some dir"
    and "clean_rundir utils_clean_rundir default_keep_files calculation_succeeded self fs =
           (raised, warnings, self', fs')"
  shows "self' = self \<and>
    (raised = None \<and> iterdir fs' dir = Inr [] \<and> is_dir fs' dir \<and>
       warnings = [''scratchdir '' @ str dir @ '' is not empty, not deleting.'']
     \<or> (\<exists>e. raised = Some e) \<and> warnings = [])"
proof (cases "wfl_keep_files self")
  case None
  with assms show ?thesis by (auto simp: clean_rundir_def)
next
  case (Some keep)
  obtain r1 fs1 where u: "utils_clean_rundir dir keep default_keep_files calculation_succeeded fs = (r1, fs1)"
    by (cases "utils_clean_rundir dir keep default_keep_files calculation_succeeded fs")
  show ?thesis
  proof (cases r1)
    case (Some e)
    with assms \<open>wfl_keep_files self = Some keep\<close> u show ?thesis
      by (auto simp: clean_rundir_def)
  next
    case None
    obtain r2 fs2 where mv: "move_all fs1 (glob_star fs1 dir) (cur_rundir self) = (r2, fs2)"
      by (cases "move_all fs1 (glob_star fs1 dir) (cur_rundir self)")
    show ?thesis
    proof (cases r2)
      case (Some e)
      with assms \<open>wfl_keep_files self = Some keep\<close> u None mv show ?thesis
        by (auto simp: clean_rundir_def)
    next
      case r2: None
      show ?thesis
      proof (cases "iterdir fs2 dir")
        case (Inl e)
        with assms \<open>wfl_keep_files self = Some keep\<close> u None mv r2 show ?thesis
          by (auto simp: clean_rundir_def)
      next
        case (Inr es)
        show ?thesis
        proof (cases "es = []")
          case True
          with assms \<open>wfl_keep_files self = Some keep\<close> u None mv r2 Inr
          have "raised = None" "fs' = fs2" "self' = self"
            "warnings = [''scratchdir '' @ str dir @ '' is not empty, not deleting.'']"
            by (simp_all add: clean_rundir_def)
          with Inr True iterdir_Inr(1) [OF Inr] show ?thesis by simp
        next
          case False
          from iterdir_Inr(2) [OF Inr False]
          have "rmdir fs2 dir = Inl (OSError ''ENOTEMPTY'')" .
          with assms \<open>wfl_keep_files self = Some keep\<close> u None mv r2 Inr False
          show ?thesis
            by (auto simp: clean_rundir_def)
        qed
      qed
    qed
  qed
qed

theorem clean_rundir_scratch_outcome_witness:
  "wfl_scratchdir example_calc_run = Some (Some (Path ''/scratch''))
   \<and> directory example_calc_run = Some (Path ''/scratch/home_runs_run_k3x9q_ab'')
   \<and> clean_rundir keep_all [] True example_calc_run example_fs_one_file =
       (None, [''scratchdir /scratch/home_runs_run_k3x9q_ab is not empty, not deleting.''],
        example_calc_run,
        \<lparr>nodes = [([''home'', ''runs'', ''run_k3x9q_ab'', ''out.log''], File ''energy''),
                  ([''scratch'', ''home_runs_run_k3x9q_ab''], Dir),
                  ([''home'', ''runs'', ''run_k3x9q_ab''], Dir),
                  ([''home'', ''runs''], Dir), ([''home''], Dir), ([''scratch''], Dir)],
         cwd = [''home'']\<rparr>)
   \<and> is_dir
        \<lparr>nodes = [([''home'', ''runs'', ''run_k3x9q_ab'', ''out.log''], File ''energy''),
                  ([''scratch'', ''home_runs_run_k3x9q_ab''], Dir),
                  ([''home'', ''runs'', ''run_k3x9q_ab''], Dir),
                  ([''home'', ''runs''], Dir), ([''home''], Dir), ([''scratch''], Dir)],
         cwd = [''home'']\<rparr>
        (Path ''/scratch/home_runs_run_k3x9q_ab'')"
proof -
  have s: "wfl_scratchdir example_calc_run = Some (Some (Path ''/scratch''))"
    and d: "directory example_calc_run = Some (Path ''/scratch/home_runs_run_k3x9q_ab'')"
    by (simp_all add: example_calc_run_def example_calc_def)
  have c: "clean_rundir keep_all [] True example_calc_run example_fs_one_file =
       (None, [''scratchdir /scratch/home_runs_run_k3x9q_ab is not empty, not deleting.''],
        example_calc_run,
        \<lparr>nodes = [([''home'', ''runs'', ''run_k3x9q_ab'', ''out.log''], File ''energy''),
                  ([''scratch'', ''home_runs_run_k3x9q_ab''], Dir),
                  ([''home'', ''runs'', ''run_k3x9q_ab''], Dir),
                  ([''home'', ''runs''], Dir), ([''home''], Dir), ([''scratch''], Dir)],
         cwd = [''home'']\<rparr>)"
    by (simp add: clean_rundir_def example_defs path_defs fs_defs Let_def)
  from clean_rundir_scratch_outcome [OF s d c] s d c show ?thesis
    by simp
qed

text \<open>
  C3. The code does not do what the claim says. Here the scratch working directory
  holds a file and a directory with a file in it after the calculation. \<open>clean_rundir\<close>
  moves both entries to the permanent run directory, and then it leaves the emptied
  scratch working directory where it is: it issues the warning that the directory "is
  not empty", removes nothing, and \<open>self.directory\<close> still names the scratch
  directory.
\<close>

theorem clean_rundir_keeps_emptied_scratchdir:
  "clean_rundir keep_all [] True example_calc_run example_fs_two_entries =
     (None, [''scratchdir /scratch/home_runs_run_k3x9q_ab is not empty, not deleting.''],
      example_calc_run,
      \<lparr>nodes = [([''home'', ''runs'', ''run_k3x9q_ab'', ''out.log''], File ''energy''),
                ([''home'', ''runs'', ''run_k3x9q_ab'', ''tmp'', ''wfn.dat''], File ''psi''),
                ([''home'', ''runs'', ''run_k3x9q_ab'', ''tmp''], Dir),
                ([''scratch'', ''home_runs_run_k3x9q_ab''], Dir),
                ([''home'', ''runs'', ''run_k3x9q_ab''], Dir),
                ([''home'', ''runs''], Dir), ([''home''], Dir), ([''scratch''], Dir)],
       cwd = [''home'']\<rparr>)
   \<and> node_at (snd (snd (snd (clean_rundir keep_all [] True example_calc_run example_fs_two_entries))))
       (Path ''/scratch/home_runs_run_k3x9q_ab'') = Some Dir
   \<and> directory (fst (snd (snd (clean_rundir keep_all [] True example_calc_run example_fs_two_entries)))) =
       Some (Path ''/scratch/home_runs_run_k3x9q_ab'')"
proof -
  have e: "clean_rundir keep_all [] True example_calc_run example_fs_two_entries =
     (None, [''scratchdir /scratch/home_runs_run_k3x9q_ab is not empty, not deleting.''],
      example_calc_run,
      \<lparr>nodes = [([''home'', ''runs'', ''run_k3x9q_ab'', ''out.log''], File ''energy''),
                ([''home'', ''runs'', ''run_k3x9q_ab'', ''tmp'', ''wfn.dat''], File ''psi''),
                ([''home'', ''runs'', ''run_k3x9q_ab'', ''tmp''], Dir),
                ([''scratch'', ''home_runs_run_k3x9q_ab''], Dir),
                ([''home'', ''runs'', ''run_k3x9q_ab''], Dir),
                ([''home'', ''runs''], Dir), ([''home''], Dir), ([''scratch''], Dir)],
       cwd = [''home'']\<rparr>)"
    by (simp add: clean_rundir_def example_defs path_defs fs_defs Let_def)
  show ?thesis
    unfolding e by (simp add: example_calc_run_def path_defs locate_def stat_def node_at_def)
qed

section \<open>The default chunk size\<close>

text \<open>
  C8. The option \<open>--num-inputs-per-python-subprocess\<close> has the fixed default 10: that
  is what a command decorated with it receives when the flag is absent. The default is
  positive, so an AutoparaInfo with this chunk size meets the invariant exactly when
  its worker count is at least one.
\<close>

theorem num_inputs_default:
  "option_value num_inputs_per_python_subprocess_option None = Some 10
   \<and> hd (num_inputs_per_python_subprocess f) = num_inputs_per_python_subprocess_option
   \<and> autopara_invariant \<lparr>num_python_subprocesses = w, num_inputs_per_subprocess = 10\<rparr>
       = (1 \<le> w)"
  by (simp add: num_inputs_per_python_subprocess_option_def
      num_inputs_per_python_subprocess_def option_value_def autopara_invariant_def)

section \<open>Chunking\<close>

lemma chunker_Nil: "chunker n i [] = []"
  by (simp add: chunker.simps)

lemma chunker_step:
  "0 < n \<Longrightarrow> xs \<noteq> [] \<Longrightarrow>
   chunker n i xs = \<lparr>start = i, items = take n xs\<rparr> # chunker n (i + n) (drop n xs)"
  by (subst chunker.simps) simp

lemma concat_chunker: "0 < n \<Longrightarrow> concat (map items (chunker n i xs)) = xs"
proof (induction n i xs rule: chunker.induct)
  case (1 n i xs)
  show ?case
  proof (cases "xs = []")
    case True
    then show ?thesis by (simp add: chunker_Nil)
  next
    case False
    with "1.prems" "1.IH" show ?thesis
      by (simp add: chunker_step)
  qed
qed

lemma chunker_nth:
  "0 < n \<Longrightarrow> j < length (chunker n i xs) \<Longrightarrow>
   chunker n i xs ! j = \<lparr>start = i + j * n, items = take n (drop (j * n) xs)\<rparr>
   \<and> j * n < length xs"
proof (induction n i xs arbitrary: j rule: chunker.induct)
  case (1 n i xs)
  show ?case
  proof (cases "xs = []")
    case True
    with "1.prems" show ?thesis by (simp add: chunker_Nil)
  next
    case False
    note step = chunker_step [OF "1.prems"(1) False, of i]
    show ?thesis
    proof (cases j)
      case 0
      with step False show ?thesis by simp
    next
      case (Suc k)
      with "1.prems" step have k: "k < length (chunker n (i + n) (drop n xs))"
        by simp
      from "1.IH" [OF _ "1.prems"(1) k] "1.prems"(1) False
      have "chunker n (i + n) (drop n xs) ! k =
          \<lparr>start = i + n + k * n, items = take n (drop (k * n) (drop n xs))\<rparr>
          \<and> k * n < length (drop n xs)"
        by simp
      with Suc step show ?thesis
        by (auto simp: add.commute add.left_commute less_diff_conv)
    qed
  qed
qed

lemma chunk_sizes:
  assumes n: "0 < n" and j: "j < length (chunker n 0 xs)"
  shows "start (chunker n 0 xs ! j) = j * n"
    and "items (chunker n 0 xs ! j) = take n (drop (j * n) xs)"
    and "1 \<le> length (items (chunker n 0 xs ! j))"
    and "length (items (chunker n 0 xs ! j)) \<le> n"
    and "Suc j < length (chunker n 0 xs) \<Longrightarrow> length (items (chunker n 0 xs ! j)) = n"
proof -
  from chunker_nth [OF n j]
  have c: "chunker n 0 xs ! j = \<lparr>start = j * n, items = take n (drop (j * n) xs)\<rparr>"
    and l: "j * n < length xs" by simp_all
  from c show "start (chunker n 0 xs ! j) = j * n" by simp
  from c show "items (chunker n 0 xs ! j) = take n (drop (j * n) xs)" by simp
  from c l n show "1 \<le> length (items (chunker n 0 xs ! j))" by simp
  from c show "length (items (chunker n 0 xs ! j)) \<le> n" by simp
  assume "Suc j < length (chunker n 0 xs)"
  from chunker_nth [OF n this] have "Suc j * n < length xs" by simp
  with c show "length (items (chunker n 0 xs ! j)) = n" by simp
qed

lemma chunker_23:
  assumes "length xs = 23"
  shows "map (\<lambda>c. length (items c)) (chunker 10 0 xs) = [10, 10, 3]"
proof -
  from assms have a: "xs \<noteq> []" "drop 10 xs \<noteq> []" "drop 10 (drop 10 xs) \<noteq> []"
    "drop 10 (drop 10 (drop 10 xs)) = []" by auto
  show ?thesis
    using assms a by (simp add: chunker_step chunker_Nil)
qed

text \<open>
  C6. For a chunk size \<open>n \<ge> 1\<close> the chunks are consecutive pieces of the input: put
  together they are the input, chunk \<open>j\<close> starts at the global index \<open>j * n\<close> and holds
  the at most \<open>n\<close> items from there, no chunk is empty, and every chunk but the last
  holds exactly \<open>n\<close> items. An empty input gives no chunk, and 23 inputs with chunk size
  10 give three chunks of sizes 10, 10 and 3.
\<close>

theorem chunker_contract:
  assumes "1 \<le> n"
  shows "concat (map items (chunker n 0 xs)) = xs
    \<and> (\<forall>j < length (chunker n 0 xs).
         start (chunker n 0 xs ! j) = j * n
       \<and> items (chunker n 0 xs ! j) = take n (drop (j * n) xs)
       \<and> 1 \<le> length (items (chunker n 0 xs ! j))
       \<and> length (items (chunker n 0 xs ! j)) \<le> n
       \<and> (Suc j < length (chunker n 0 xs) \<longrightarrow> length (items (chunker n 0 xs ! j)) = n))
    \<and> chunker n 0 ([] :: 'a list) = []
    \<and> (length xs = 23 \<longrightarrow> map (\<lambda>c. length (items c)) (chunker 10 0 xs) = [10, 10, 3])"
proof -
  from assms have n: "0 < n" by simp
  have "concat (map items (chunker n 0 xs)) = xs"
    by (rule concat_chunker [OF n])
  moreover have "\<forall>j < length (chunker n 0 xs).
         start (chunker n 0 xs ! j) = j * n
       \<and> items (chunker n 0 xs ! j) = take n (drop (j * n) xs)
       \<and> 1 \<le> length (items (chunker n 0 xs ! j))
       \<and> length (items (chunker n 0 xs ! j)) \<le> n
       \<and> (Suc j < length (chunker n 0 xs) \<longrightarrow> length (items (chunker n 0 xs ! j)) = n)"
    using chunk_sizes [OF n] by blast
  moreover have "chunker n 0 ([] :: 'a list) = []"
    by (rule chunker_Nil)
  moreover have "length xs = 23 \<longrightarrow> map (\<lambda>c. length (items c)) (chunker 10 0 xs) = [10, 10, 3]"
    by (simp add: chunker_23)
  ultimately show ?thesis by blast
qed

theorem chunker_contract_witness:
  "(1::nat) \<le> 10
   \<and> concat (map items (chunker 10 0 [0..<23])) = [0..<23]
   \<and> map (\<lambda>c. length (items c)) (chunker 10 0 [0..<23]) = [10, 10, 3]
   \<and> start (chunker 10 0 [0..<23] ! 2) = 20
   \<and> items (chunker 10 0 [0..<23] ! 2) = [20, 21, 22]"
proof -
  have one: "(1::nat) \<le> 10" by simp
  note contract = chunker_contract [OF one, of "[0..<23]"]
  have len: "2 < length (chunker 10 0 [0..<23])"
    using arg_cong [OF chunker_23 [of "[0..<23]"], of length] by simp
  have t: "take 10 (drop (2 * 10) [0..<23]) = [20, 21, 22]"
    by code_simp
  from contract have a: "concat (map items (chunker 10 0 [0..<23])) = [0..<23]"
    by blast
  from contract have "length [0..<23] = 23 \<longrightarrow>
      map (\<lambda>c. length (items c)) (chunker 10 0 [0..<23]) = [10, 10, 3]"
    by blast
  then have b: "map (\<lambda>c. length (items c)) (chunker 10 0 [0..<23]) = [10, 10, 3]"
    by simp
  from contract have "\<forall>j < length (chunker 10 0 [0..<23]).
      start (chunker 10 0 [0..<23] ! j) = j * 10
      \<and> items (chunker 10 0 [0..<23] ! j) = take 10 (drop (j * 10) [0..<23])"
    by blast
  then have "2 < length (chunker 10 0 [0..<23]) \<longrightarrow>
      start (chunker 10 0 [0..<23] ! 2) = 2 * 10
      \<and> items (chunker 10 0 [0..<23] ! 2) = take 10 (drop (2 * 10) [0..<23])"
    by (rule spec)
  with len have "start (chunker 10 0 [0..<23] ! 2) = 2 * 10"
    and "items (chunker 10 0 [0..<23] ! 2) = take 10 (drop (2 * 10) [0..<23])"
    by blast+
  with t a b one show ?thesis
    by simp
qed

section \<open>Dispatch\<close>

lemma chunker_start_ge: "c \<in> set (chunker n i xs) \<Longrightarrow> i \<le> start c"
proof (induction n i xs rule: chunker.induct)
  case (1 n i xs)
  show ?case
  proof (cases "n = 0 \<or> xs = []")
    case True
    with "1.prems" show ?thesis by (auto simp: chunker.simps [of n i xs])
  next
    case False
    with "1.prems" have "c = \<lparr>start = i, items = take n xs\<rparr> \<or> c \<in> set (chunker n (i + n) (drop n xs))"
      by (simp add: chunker_step)
    with "1.IH" False show ?thesis by auto
  qed
qed

lemma chunker_starts_increasing: "sorted_wrt (<) (map start (chunker n i xs))"
proof (induction n i xs rule: chunker.induct)
  case (1 n i xs)
  show ?case
  proof (cases "n = 0 \<or> xs = []")
    case True
    then show ?thesis by (auto simp: chunker.simps [of n i xs])
  next
    case False
    with "1.IH" have "sorted_wrt (<) (map start (chunker n (i + n) (drop n xs)))"
      by simp
    moreover have "\<forall>c \<in> set (chunker n (i + n) (drop n xs)). i < start c"
      using False chunker_start_ge [of _ n "i + n" "drop n xs"] by fastforce
    ultimately show ?thesis
      using False by (simp add: chunker_step)
  qed
qed

lemma filter_key_single:
  fixes f :: "'a \<Rightarrow> 'k::linorder"
  assumes s: "sorted_wrt (<) (map f xs)" and k: "k \<in> set xs"
  shows "filter (\<lambda>x. f k = f x) xs = [k]"
  using s k
proof (induction xs)
  case Nil
  then show ?case by simp
next
  case (Cons a xs)
  show ?case
  proof (cases "k = a")
    case True
    from Cons.prems(1) have "\<forall>x \<in> set xs. f a < f x" by simp
    with True have "\<forall>x \<in> set xs. f k \<noteq> f x" by fastforce
    then have "filter (\<lambda>x. f k = f x) xs = []" by (simp add: filter_empty_conv)
    with True show ?thesis by simp
  next
    case False
    with Cons.prems have k: "k \<in> set xs" and "f a < f k" by auto
    then have "f k \<noteq> f a" by simp
    with Cons.IH [OF _ k] Cons.prems(1) show ?thesis by simp
  qed
qed

lemma mset_single_list: "mset zs = mset [k] \<Longrightarrow> zs = [k]"
  by simp

lemma sort_key_unique:
  fixes f :: "'a \<Rightarrow> 'k::linorder"
  assumes m: "mset ys = mset xs" and s: "sorted_wrt (<) (map f xs)"
  shows "sort_key f ys = xs"
proof (rule properties_for_sort_key)
  show "mset xs = mset ys" using m by simp
  show "sorted (map f xs)"
    using s by (rule strict_sorted_imp_sorted)
  fix k assume k: "k \<in> set xs"
  have "mset (filter (\<lambda>x. f k = f x) ys) = mset (filter (\<lambda>x. f k = f x) xs)"
    using m by simp
  also have "\<dots> = mset [k]"
    using filter_key_single [OF s k] by simp
  finally have "filter (\<lambda>x. f k = f x) ys = [k]"
    by (rule mset_single_list)
  with filter_key_single [OF s k]
  show "filter (\<lambda>x. f k = f x) xs = filter (\<lambda>x. f k = f x) ys"
    by simp
qed

lemma run_chunks_sorted:
  "sorted_wrt (<) (map start (map (run_chunk evaluate) (chunker n i xs)))"
  using chunker_starts_increasing [of n i xs]
  by (simp add: run_chunk_def comp_def)

lemma reorder_completed:
  assumes "completion_order evaluate n xs completed"
  shows "reorder completed = map (run_chunk evaluate) (chunker n 0 xs)"
  unfolding reorder_def
  using assms run_chunks_sorted
  by (intro sort_key_unique) (simp_all add: completion_order_def)

lemma serial_run_eq: "0 < n \<Longrightarrow> serial_run evaluate n xs = map evaluate xs"
proof -
  assume n: "0 < n"
  have "serial_run evaluate n xs = map evaluate (concat (map items (chunker n 0 xs)))"
    by (simp add: serial_run_def run_chunk_def map_concat comp_def)
  then show ?thesis by (simp add: concat_chunker [OF n])
qed

lemma parallel_run_eq:
  assumes "0 < n" and "completion_order evaluate n xs completed"
  shows "parallel_run completed = map evaluate xs"
proof -
  have "parallel_run completed = serial_run evaluate n xs"
    by (simp add: parallel_run_def reorder_completed [OF assms(2)] serial_run_def comp_def)
  with serial_run_eq [OF assms(1)] show ?thesis by simp
qed

text \<open>
  C4. For every input, every chunk size \<open>n \<ge> 1\<close>, every worker count and every order
  in which the chunks complete, the records emitted are the records of the inputs in
  the order of the inputs.
\<close>

theorem output_order_is_input_order:
  assumes "1 \<le> n" and "completion_order evaluate n xs completed"
  shows "run workers n evaluate xs completed = map evaluate xs"
proof -
  from assms(1) have n: "0 < n" by simp
  show ?thesis
    by (simp add: run_def serial_run_eq [OF n] parallel_run_eq [OF n assms(2)])
qed

theorem output_order_is_input_order_witness:
  "(1::nat) \<le> 2
   \<and> completion_order Suc 2 [1, 2, 3]
       [\<lparr>start = 2, items = [4]\<rparr>, \<lparr>start = 0, items = [2, 3]\<rparr>]
   \<and> run 2 2 Suc [1, 2, 3] [\<lparr>start = 2, items = [4]\<rparr>, \<lparr>start = 0, items = [2, 3]\<rparr>]
       = [2, 3, 4]"
proof -
  have one: "(1::nat) \<le> 2" by simp
  have c: "completion_order Suc 2 [1, 2, 3]
      [\<lparr>start = 2, items = [4]\<rparr>, \<lparr>start = 0, items = [2, 3]\<rparr>]"
    by code_simp
  from output_order_is_input_order [OF one c, of 2] one c show ?thesis
    by simp
qed

text \<open>
  C5. For every input, evaluation function (the CalculatorSpec at work) and chunk size
  \<open>n \<ge> 1\<close>, the serial path, taken with a worker count of at most one, gives the same
  sequence of records as the parallel path gives with more workers, whatever the order
  in which the chunks complete there.
\<close>

theorem serial_equals_parallel:
  assumes "1 \<le> n" and "completion_order evaluate n xs completed"
    and "workers \<le> 1" and "1 < workers'"
  shows "run workers n evaluate xs unused = run workers' n evaluate xs completed
       \<and> serial_run evaluate n xs = parallel_run completed"
proof -
  from assms(1) have n: "0 < n" by simp
  from assms(3,4) show ?thesis
    by (simp add: run_def serial_run_eq [OF n] parallel_run_eq [OF n assms(2)])
qed

theorem serial_equals_parallel_witness:
  "(1::nat) \<le> 2
   \<and> completion_order Suc 2 [5, 6, 7]
       [\<lparr>start = 2, items = [8]\<rparr>, \<lparr>start = 0, items = [6, 7]\<rparr>]
   \<and> (1::nat) \<le> 1 \<and> (1::nat) < 4
   \<and> run 1 2 Suc [5, 6, 7] [] =
       run 4 2 Suc [5, 6, 7] [\<lparr>start = 2, items = [8]\<rparr>, \<lparr>start = 0, items = [6, 7]\<rparr>]"
proof -
  have one: "(1::nat) \<le> 2" and w: "(1::nat) \<le> 1" and w': "(1::nat) < 4" by simp_all
  have c: "completion_order Suc 2 [5, 6, 7]
      [\<lparr>start = 2, items = [8]\<rparr>, \<lparr>start = 0, items = [6, 7]\<rparr>]"
    by code_simp
  from serial_equals_parallel [OF one c w w', of "[]"] one c show ?thesis
    by simp
qed

end
